theory Spec2Isabelle
  imports Main
begin

section \<open>Values of the Python program\<close>

text \<open>
  The development embeds \<^verbatim>\<open>kimm/_src/models/mobileone.py\<close>: the constructor
  \<^verbatim>\<open>MobileOne.__init__\<close>, which lays out the stem and the stages of
  reparameterizable convolution layers, and \<^verbatim>\<open>MobileOne.get_reparameterized_model\<close>,
  which builds a second model in reparameterized mode and moves the weights over.

  Exceptions are values of \<open>error\<close>. \<open>ValueError\<close> is the exception raised by the guard
  at the top of the constructor, \<open>KeyError\<close> the one of \<^verbatim>\<open>kwargs["weights"]\<close> on a missing
  key, \<open>AttributeError\<close> the one of reading \<^verbatim>\<open>reparameterized_conv2d.kernel\<close> on a layer
  that has no such operator.
\<close>

datatype error = ValueError | KeyError | AttributeError | TypeError

text \<open>
  Weight variables live in a store. An address is an index into the store, creating a
  variable appends to it, and \<^verbatim>\<open>assign\<close> overwrites one cell. The element type \<open>'v\<close>
  stands for a tensor value; the program never looks inside one.
\<close>

type_synonym addr = nat
type_synonym 'v store = "'v list"

text \<open>Decimal rendering of a non-negative integer, as an f-string prints it.\<close>

definition digit_char :: "nat \<Rightarrow> char" where
  "digit_char d = ''0123456789'' ! d"

function str_nat :: "nat \<Rightarrow> string" where
  "str_nat n = (if n < 10 then [digit_char n] else str_nat (n div 10) @ [digit_char (n mod 10)])"
  by pat_completeness auto
termination
  by (relation "measure (\<lambda>n. n)") auto

declare str_nat.simps [simp del]

text \<open>
  A Python dict keeps insertion order; assigning to a key that is present replaces the
  value where it stands, assigning to a new key appends.
\<close>

fun dict_set :: "('k \<times> 'a) list \<Rightarrow> 'k \<Rightarrow> 'a \<Rightarrow> ('k \<times> 'a) list" where
  "dict_set [] k v = [(k, v)]"
| "dict_set ((k', v') # d) k v = (if k' = k then (k, v) # d else (k', v') # dict_set d k v)"

definition dict_keys :: "('k \<times> 'a) list \<Rightarrow> 'k list" where
  "dict_keys d = map fst d"

section \<open>Keyword arguments, symbolic tensors, layers\<close>

text \<open>
  The keyword arguments the constructor passes on to \<^verbatim>\<open>BaseModel\<close>. Only \<^verbatim>\<open>weights\<close>
  is read by \<^verbatim>\<open>mobileone.py\<close> itself: \<open>None\<close> is a missing key, \<open>Some None\<close> is
  \<^verbatim>\<open>weights=None\<close>, \<open>Some (Some w)\<close> a pretrained-weights descriptor.
  \<open>kw_input_channels\<close> is the channel count of the tensor that
  \<^verbatim>\<open>determine_input_tensor\<close> returns for the requested input shape; \<open>kw_other\<close> holds
  the remaining arguments, uninterpreted.
\<close>

record kwargs =
  kw_weights :: "string option option"
  kw_input_channels :: int
  kw_other :: "(string \<times> string) list"

text \<open>
  A symbolic tensor of the functional API: its size on the channel axis, which is what
  \<^verbatim>\<open>x.shape[channels_axis]\<close> reads, and the name of the layer whose output it is.
\<close>

record ktensor =
  t_channels :: int
  t_layer :: string

text \<open>
  The arguments of one \<^verbatim>\<open>ReparameterizableConv2D(...)\<close> call. \<^verbatim>\<open>has_scale\<close> and
  \<^verbatim>\<open>use_depthwise\<close> are not passed in every call: \<open>None\<close> is an argument left to the
  default of the class, which is not among the sources.
\<close>

record conv_args =
  c_filters :: int
  c_kernel_size :: int
  c_strides :: int
  c_has_skip :: bool
  c_has_scale :: "bool option"
  c_use_depthwise :: "bool option"
  c_branch_size :: int
  c_reparameterized :: bool
  c_activation :: string
  c_name :: string

text \<open>
  The variables of a reparameterizable layer: the variables of its branches in the
  multi-branch form, or the kernel and the bias of \<^verbatim>\<open>reparameterized_conv2d\<close> in the
  reparameterized form.
\<close>

datatype rep_vars = Branches "addr list" | Fused addr addr

text \<open>
  A layer of the model: a \<^verbatim>\<open>ReparameterizableConv2D\<close> with its arguments, the channel
  count of its input and its variables, or any other layer (input, preprocessing, head)
  with its name and its variables.
\<close>

datatype layer =
    ReparameterizableConv2D conv_args int rep_vars
  | Plain string "addr list"

text \<open>\<^verbatim>\<open>layer.weights\<close>: the variables of a layer, in order.\<close>

fun weights :: "layer \<Rightarrow> addr list" where
  "weights (ReparameterizableConv2D a cin (Branches ws)) = ws"
| "weights (ReparameterizableConv2D a cin (Fused ka ba)) = [ka, ba]"
| "weights (Plain nm ws) = ws"

text \<open>\<^verbatim>\<open>hasattr(layer, "get_reparameterized_weights")\<close>: the method belongs to the class.\<close>

fun has_get_reparameterized_weights :: "layer \<Rightarrow> bool" where
  "has_get_reparameterized_weights (ReparameterizableConv2D a cin vs) = True"
| "has_get_reparameterized_weights (Plain nm ws) = False"

text \<open>The values a reparameterizable layer currently holds, read from the store.\<close>

datatype 'v unit_values = BranchValues "'v list" | FusedValues 'v 'v

fun read_unit :: "'v store \<Rightarrow> rep_vars \<Rightarrow> 'v unit_values" where
  "read_unit s (Branches ws) = BranchValues (map (\<lambda>a. s ! a) ws)"
| "read_unit s (Fused ka ba) = FusedValues (s ! ka) (s ! ba)"

text \<open>
  What \<^verbatim>\<open>mobileone.py\<close> imports and this development takes as parameters: the
  initial values of the variables that building a \<^verbatim>\<open>ReparameterizableConv2D\<close> creates
  (in either form), its method \<^verbatim>\<open>get_reparameterized_weights\<close> (the fusion of the
  branches, floating-point arithmetic over the layer's current values), the shape test of
  \<^verbatim>\<open>Variable.assign\<close> (current value, new value), and the layers that
  \<^verbatim>\<open>BaseModel.build_preprocessing\<close> and \<^verbatim>\<open>BaseModel.build_head\<close> put before and after
  the convolutions (name and initial variable values of each, and the tensor that comes out).
\<close>

record 'v backend =
  bk_branch_variables :: "conv_args \<Rightarrow> int \<Rightarrow> 'v list"
  bk_fused_variables :: "conv_args \<Rightarrow> int \<Rightarrow> 'v \<times> 'v"
  bk_get_reparameterized_weights :: "conv_args \<Rightarrow> int \<Rightarrow> 'v unit_values \<Rightarrow> error + ('v \<times> 'v)"
  bk_assignable :: "'v \<Rightarrow> 'v \<Rightarrow> bool"
  bk_build_preprocessing :: "kwargs \<Rightarrow> ktensor \<Rightarrow> (string \<times> 'v list) list \<times> ktensor"
  bk_build_head :: "kwargs \<Rightarrow> ktensor \<Rightarrow> (string \<times> 'v list) list \<times> ktensor"

section \<open>Building the graph\<close>

text \<open>
  The state of the constructor while it builds the functional graph: the current tensor
  \<^verbatim>\<open>x\<close>, the layers created so far, the dict \<^verbatim>\<open>features\<close>, and the store.
\<close>

record 'v graph =
  g_x :: ktensor
  g_layers :: "layer list"
  g_features :: "(string \<times> ktensor) list"
  g_heap :: "'v store"

definition alloc :: "'v list \<Rightarrow> 'v store \<Rightarrow> addr list \<times> 'v store" where
  "alloc vs s = ([length s ..< length s + length vs], s @ vs)"

text \<open>
  Modelled from the spec: the class \<^verbatim>\<open>ReparameterizableConv2D\<close> is imported from
  \<^verbatim>\<open>kimm._src.layers.reparameterizable_conv2d\<close>, which is not among the sources. Creating
  the layer and calling it on \<^verbatim>\<open>x\<close> creates the layer's variables (the branch set in
  the multi-branch form, one fused operator with kernel and bias in the reparameterized
  form), adds the layer to the graph and returns a tensor whose channel count is the
  layer's \<^verbatim>\<open>filters\<close> (the Unit's \<open>out_ch\<close>).
\<close>

definition call_ReparameterizableConv2D :: "'v backend \<Rightarrow> conv_args \<Rightarrow> 'v graph \<Rightarrow> 'v graph" where
  "call_ReparameterizableConv2D bk a g =
     (let cin = t_channels (g_x g);
          s = g_heap g;
          (vars, s') =
            (if c_reparameterized a
             then (case bk_fused_variables bk a cin of
                     (kernel_v, bias_v) \<Rightarrow> (Fused (length s) (Suc (length s)), s @ [kernel_v, bias_v]))
             else (case alloc (bk_branch_variables bk a cin) s of
                     (ws, s') \<Rightarrow> (Branches ws, s')))
      in g\<lparr>g_x := \<lparr>t_channels = c_filters a, t_layer = c_name a\<rparr>,
            g_layers := g_layers g @ [ReparameterizableConv2D a cin vars],
            g_heap := s'\<rparr>)"

text \<open>
  A layer of \<^verbatim>\<open>BaseModel\<close> (preprocessing or head): its variables are created and
  the layer is added to the graph.
\<close>

fun add_plain_layers :: "(string \<times> 'v list) list \<Rightarrow> 'v graph \<Rightarrow> 'v graph" where
  "add_plain_layers [] g = g"
| "add_plain_layers ((nm, vs) # rest) g =
     (case alloc vs (g_heap g) of
        (ws, s') \<Rightarrow> add_plain_layers rest (g\<lparr>g_layers := g_layers g @ [Plain nm ws], g_heap := s'\<rparr>))"

definition build_preprocessing :: "'v backend \<Rightarrow> kwargs \<Rightarrow> 'v graph \<Rightarrow> 'v graph" where
  "build_preprocessing bk kw g =
     (case bk_build_preprocessing bk kw (g_x g) of
        (ls, y) \<Rightarrow> (add_plain_layers ls g)\<lparr>g_x := y\<rparr>)"

definition build_head :: "'v backend \<Rightarrow> kwargs \<Rightarrow> 'v graph \<Rightarrow> 'v graph" where
  "build_head bk kw g =
     (case bk_build_head bk kw (g_x g) of
        (ls, y) \<Rightarrow> (add_plain_layers ls g)\<lparr>g_x := y\<rparr>)"

text \<open>
  The body of \<^verbatim>\<open>for _ in range(n)\<close> (lines 80 to 112), run \<open>k\<close> more times. The
  loop's variables \<^verbatim>\<open>strides\<close> and \<^verbatim>\<open>current_block_idx\<close> are passed along with the
  graph.
\<close>

fun blocks :: "'v backend \<Rightarrow> int \<Rightarrow> bool \<Rightarrow> nat \<Rightarrow> int \<Rightarrow> nat \<Rightarrow> int \<Rightarrow> nat \<Rightarrow> 'v graph \<Rightarrow> 'v graph" where
  "blocks bk branch_size reparameterized current_stage_idx c 0 strides current_block_idx g = g"
| "blocks bk branch_size reparameterized current_stage_idx c (Suc k) strides current_block_idx g =
     (let strides = (if current_block_idx = 0 then strides else 1);
          input_channels = t_channels (g_x g);
          has_skip1 = (strides = 1);
          has_skip2 = (input_channels = c);
          name1 = ''stages_'' @ str_nat current_stage_idx @ ''_'' @ str_nat current_block_idx;
          name2 = ''stages_'' @ str_nat current_stage_idx @ ''_'' @ str_nat (current_block_idx + 1);
          g = call_ReparameterizableConv2D bk
                \<lparr>c_filters = input_channels, c_kernel_size = 3, c_strides = strides,
                 c_has_skip = has_skip1, c_has_scale = None, c_use_depthwise = Some True,
                 c_branch_size = branch_size, c_reparameterized = reparameterized,
                 c_activation = ''relu'', c_name = name1\<rparr> g;
          g = call_ReparameterizableConv2D bk
                \<lparr>c_filters = c, c_kernel_size = 1, c_strides = 1,
                 c_has_skip = has_skip2, c_has_scale = Some False, c_use_depthwise = Some False,
                 c_branch_size = branch_size, c_reparameterized = reparameterized,
                 c_activation = ''relu'', c_name = name2\<rparr> g
      in blocks bk branch_size reparameterized current_stage_idx c k strides (current_block_idx + 2) g)"

text \<open>
  The loop over \<^verbatim>\<open>enumerate(zip(num_channels, num_blocks))\<close> (lines 73 to 115), with
  the variable \<^verbatim>\<open>current_strides\<close>. \<^verbatim>\<open>range(n)\<close> runs \<open>nat n\<close> times: not at all for
  \<open>n \<le> 0\<close>.
\<close>

fun stages :: "'v backend \<Rightarrow> int \<Rightarrow> bool \<Rightarrow> (nat \<times> int \<times> int) list \<Rightarrow> nat \<Rightarrow> 'v graph \<Rightarrow> 'v graph" where
  "stages bk branch_size reparameterized [] current_strides g = g"
| "stages bk branch_size reparameterized ((current_stage_idx, c, n) # rest) current_strides g =
     (let strides = 2;
          current_strides = current_strides * 2;
          current_block_idx = 0;
          g = blocks bk branch_size reparameterized current_stage_idx c (nat n) strides current_block_idx g;
          g = g\<lparr>g_features := dict_set (g_features g)
                  (''BLOCK'' @ str_nat current_stage_idx @ ''_S'' @ str_nat current_strides) (g_x g)\<rparr>
      in stages bk branch_size reparameterized rest current_strides g)"

definition enumerate_zip :: "'a list \<Rightarrow> 'b list \<Rightarrow> (nat \<times> 'a \<times> 'b) list" where
  "enumerate_zip xs ys = zip [0 ..< min (length xs) (length ys)] (zip xs ys)"

section \<open>The model and its constructor\<close>

text \<open>
  The arguments of \<^verbatim>\<open>MobileOne.__init__\<close>, which are also the entries of the dict that
  \<^verbatim>\<open>get_config\<close> returns.
\<close>

record config =
  cfg_num_blocks :: "int list"
  cfg_num_channels :: "int list"
  cfg_stem_channels :: int
  cfg_branch_size :: int
  cfg_reparameterized :: bool
  cfg_kwargs :: kwargs

text \<open>
  A constructed model: the layers, features and output that
  \<^verbatim>\<open>super().__init__(inputs=inputs, outputs=x, features=features, **kwargs)\<close> receives,
  the keyword arguments \<^verbatim>\<open>BaseModel\<close> keeps, and the five attributes set after it.
\<close>

record model =
  self_layers :: "layer list"
  self_features :: "(string \<times> ktensor) list"
  self_outputs :: ktensor
  self_kwargs :: kwargs
  self_num_blocks :: "int list"
  self_num_channels :: "int list"
  self_stem_channels :: int
  self_branch_size :: int
  self_reparameterized :: bool

text \<open>
  \<^verbatim>\<open>MobileOne.__init__\<close>, lines 22 to 127, on a store \<open>s\<close>; it returns the exception or
  the model, and the store afterwards. Reading \<^verbatim>\<open>kwargs["weights"]\<close> comes first and
  raises on a missing key; the guard compares with \<^verbatim>\<open>is not None\<close> and \<^verbatim>\<open>is True\<close>. The
  graph starts with the input layer that \<^verbatim>\<open>determine_input_tensor\<close> returns. What
  \<^verbatim>\<open>BaseModel.__init__\<close> does with a weights descriptor (fetching and loading a file)
  is outside this development: the values of the variables after construction are those
  the backend gives them.
\<close>

definition MobileOne_init :: "'v backend \<Rightarrow> config \<Rightarrow> 'v store \<Rightarrow> (error + model) \<times> 'v store" where
  "MobileOne_init bk a s =
     (case kw_weights (cfg_kwargs a) of
        None \<Rightarrow> (Inl KeyError, s)
      | Some w \<Rightarrow>
          if w \<noteq> None \<and> cfg_reparameterized a = True then (Inl ValueError, s)
          else
            (let kwargs = cfg_kwargs a;
                 reparameterized = cfg_reparameterized a;
                 g = \<lparr>g_x = \<lparr>t_channels = kw_input_channels kwargs, t_layer = ''input''\<rparr>,
                      g_layers = [Plain ''input'' []], g_features = [], g_heap = s\<rparr>;
                 g = build_preprocessing bk kwargs g;
                 g = call_ReparameterizableConv2D bk
                       \<lparr>c_filters = cfg_stem_channels a, c_kernel_size = 3, c_strides = 2,
                        c_has_skip = False, c_has_scale = None, c_use_depthwise = None,
                        c_branch_size = 1, c_reparameterized = reparameterized,
                        c_activation = ''relu'', c_name = ''stem''\<rparr> g;
                 g = g\<lparr>g_features := dict_set (g_features g) ''STEM_S2'' (g_x g)\<rparr>;
                 current_strides = 2;
                 g = stages bk (cfg_branch_size a) reparameterized
                       (enumerate_zip (cfg_num_channels a) (cfg_num_blocks a)) current_strides g;
                 features = g_features g;
                 g = build_head bk kwargs g
             in (Inr \<lparr>self_layers = g_layers g, self_features = features, self_outputs = g_x g,
                      self_kwargs = kwargs,
                      self_num_blocks = cfg_num_blocks a, self_num_channels = cfg_num_channels a,
                      self_stem_channels = cfg_stem_channels a, self_branch_size = cfg_branch_size a,
                      self_reparameterized = reparameterized\<rparr>,
                 g_heap g)))"

text \<open>\<^verbatim>\<open>MobileOne.get_config\<close>: the base class's config updated with the five attributes.\<close>

definition get_config :: "model \<Rightarrow> config" where
  "get_config self =
     \<lparr>cfg_num_blocks = self_num_blocks self, cfg_num_channels = self_num_channels self,
      cfg_stem_channels = self_stem_channels self, cfg_branch_size = self_branch_size self,
      cfg_reparameterized = self_reparameterized self, cfg_kwargs = self_kwargs self\<rparr>"

section \<open>Moving the weights to the reparameterized model\<close>

text \<open>
  The functions of this section return the exception, if one was raised, and the store
  as it is at that moment: what was written before an exception stays written.

  \<^verbatim>\<open>variable.assign(value)\<close>: refused with \<open>ValueError\<close> when the shapes disagree,
  otherwise the variable's cell is overwritten.
\<close>

definition assign :: "'v backend \<Rightarrow> addr \<Rightarrow> 'v \<Rightarrow> 'v store \<Rightarrow> error option \<times> 'v store" where
  "assign bk a v s = (if bk_assignable bk (s ! a) v then (None, s[a := v]) else (Some ValueError, s))"

text \<open>The inner loop, lines 164 to 167, over \<^verbatim>\<open>zip(layer.weights, rep_layer.weights)\<close>.\<close>

fun copy_weights :: "'v backend \<Rightarrow> (addr \<times> addr) list \<Rightarrow> 'v store \<Rightarrow> error option \<times> 'v store" where
  "copy_weights bk [] s = (None, s)"
| "copy_weights bk ((weight, target_weight) # rest) s =
     (case assign bk target_weight (s ! weight) s of
        (Some e, s') \<Rightarrow> (Some e, s')
      | (None, s') \<Rightarrow> copy_weights bk rest s')"

text \<open>
  The body of the outer loop, lines 159 to 167, for one pair \<^verbatim>\<open>(layer, rep_layer)\<close>.
  Reading \<^verbatim>\<open>rep_layer.reparameterized_conv2d.kernel\<close> needs a reparameterizable layer in
  the reparameterized form.
\<close>

definition transfer_layer :: "'v backend \<Rightarrow> layer \<Rightarrow> layer \<Rightarrow> 'v store \<Rightarrow> error option \<times> 'v store" where
  "transfer_layer bk layer rep_layer s =
     (if has_get_reparameterized_weights layer
      then (case layer of
              ReparameterizableConv2D a cin vars \<Rightarrow>
                (case bk_get_reparameterized_weights bk a cin (read_unit s vars) of
                   Inl e \<Rightarrow> (Some e, s)
                 | Inr (kernel_v, bias_v) \<Rightarrow>
                     (case rep_layer of
                        ReparameterizableConv2D a' cin' (Fused ka ba) \<Rightarrow>
                          (case assign bk ka kernel_v s of
                             (Some e, s') \<Rightarrow> (Some e, s')
                           | (None, s') \<Rightarrow> assign bk ba bias_v s')
                      | _ \<Rightarrow> (Some AttributeError, s)))
            | Plain nm ws \<Rightarrow> (Some AttributeError, s))
      else copy_weights bk (zip (weights layer) (weights rep_layer)) s)"

text \<open>The outer loop, line 158, over \<^verbatim>\<open>zip(self.layers, model.layers)\<close>.\<close>

fun transfer :: "'v backend \<Rightarrow> (layer \<times> layer) list \<Rightarrow> 'v store \<Rightarrow> error option \<times> 'v store" where
  "transfer bk [] s = (None, s)"
| "transfer bk ((layer, rep_layer) # rest) s =
     (case transfer_layer bk layer rep_layer s of
        (Some e, s') \<Rightarrow> (Some e, s')
      | (None, s') \<Rightarrow> transfer bk rest s')"

text \<open>
  \<^verbatim>\<open>MobileOne.get_reparameterized_model\<close>, lines 153 to 168. The result is the
  exception or the new model, with the store afterwards; \<open>self\<close> is a value and is not
  returned, the variables it owns are cells of the store.
\<close>

definition get_reparameterized_model :: "'v backend \<Rightarrow> model \<Rightarrow> 'v store \<Rightarrow> (error + model) \<times> 'v store" where
  "get_reparameterized_model bk self s =
     (let config = get_config self;
          config = config\<lparr>cfg_reparameterized := True\<rparr>;
          config = config\<lparr>cfg_kwargs := (cfg_kwargs config)\<lparr>kw_weights := Some None\<rparr>\<rparr>
      in case MobileOne_init bk config s of
           (Inl e, s1) \<Rightarrow> (Inl e, s1)
         | (Inr model, s1) \<Rightarrow>
             (case transfer bk (zip (self_layers self) (self_layers model)) s1 of
                (Some e, s2) \<Rightarrow> (Inl e, s2)
              | (None, s2) \<Rightarrow> (Inr model, s2)))"

section \<open>Units and their static topology\<close>

text \<open>
  The static fields of a Unit, the ones that do not depend on the form it is built in:
  everything the layer was created with except the flag \<^verbatim>\<open>reparameterized\<close>, and the
  channel count of its input. The output channel count is \<^verbatim>\<open>filters\<close>.
\<close>

record unit_topology =
  u_kernel_size :: int
  u_stride :: int
  u_in_ch :: int
  u_out_ch :: int
  u_branch_size :: int
  u_has_skip :: bool
  u_has_scale :: "bool option"
  u_depthwise :: "bool option"
  u_activation :: string
  u_name :: string

definition topology :: "conv_args \<Rightarrow> int \<Rightarrow> unit_topology" where
  "topology a cin =
     \<lparr>u_kernel_size = c_kernel_size a, u_stride = c_strides a, u_in_ch = cin,
      u_out_ch = c_filters a, u_branch_size = c_branch_size a, u_has_skip = c_has_skip a,
      u_has_scale = c_has_scale a, u_depthwise = c_use_depthwise a,
      u_activation = c_activation a, u_name = c_name a\<rparr>"

text \<open>The Units of a model, in order: its reparameterizable layers.\<close>

fun units :: "layer list \<Rightarrow> unit_topology list" where
  "units [] = []"
| "units (ReparameterizableConv2D a cin vs # ls) = topology a cin # units ls"
| "units (Plain nm ws # ls) = units ls"

text \<open>The form of each Unit, in order: \<open>True\<close> for the reparameterized form.\<close>

fun unit_modes :: "layer list \<Rightarrow> bool list" where
  "unit_modes [] = []"
| "unit_modes (ReparameterizableConv2D a cin (Branches ws) # ls) = False # unit_modes ls"
| "unit_modes (ReparameterizableConv2D a cin (Fused ka ba) # ls) = True # unit_modes ls"
| "unit_modes (Plain nm ws # ls) = unit_modes ls"

text \<open>The variables a list of layers owns.\<close>

definition owned :: "layer list \<Rightarrow> addr list" where
  "owned ls = concat (map weights ls)"

section \<open>The layout of a stage, as the specification words it\<close>

text \<open>
  A stage of width \<open>c\<close> with \<open>n\<close> blocks is \<open>n\<close> pairs of a depthwise Unit and a
  pointwise Unit. The depthwise Unit of the first pair has stride 2, all others stride 1;
  a depthwise Unit keeps the channel count and has the skip path iff its stride is 1; a
  pointwise Unit has kernel 1, stride 1, \<open>c\<close> output channels, the skip path iff its
  input has \<open>c\<close> channels, and no scale branch (\<^verbatim>\<open>has_scale=False\<close>; the depthwise Unit
  leaves that argument to the default). The first pair reads \<open>cin0\<close> channels, the later
  ones the \<open>c\<close> channels of the pair before. Layer names count the Units of the stage
  from 0.
\<close>

definition depthwise_unit :: "int \<Rightarrow> nat \<Rightarrow> nat \<Rightarrow> int \<Rightarrow> int \<Rightarrow> unit_topology" where
  "depthwise_unit branch_size i idx cin stride =
     \<lparr>u_kernel_size = 3, u_stride = stride, u_in_ch = cin, u_out_ch = cin,
      u_branch_size = branch_size, u_has_skip = (stride = 1), u_has_scale = None,
      u_depthwise = Some True, u_activation = ''relu'',
      u_name = ''stages_'' @ str_nat i @ ''_'' @ str_nat idx\<rparr>"

definition pointwise_unit :: "int \<Rightarrow> nat \<Rightarrow> nat \<Rightarrow> int \<Rightarrow> int \<Rightarrow> unit_topology" where
  "pointwise_unit branch_size i idx cin c =
     \<lparr>u_kernel_size = 1, u_stride = 1, u_in_ch = cin, u_out_ch = c,
      u_branch_size = branch_size, u_has_skip = (cin = c), u_has_scale = Some False,
      u_depthwise = Some False, u_activation = ''relu'',
      u_name = ''stages_'' @ str_nat i @ ''_'' @ str_nat idx\<rparr>"

definition block_pair :: "int \<Rightarrow> nat \<Rightarrow> int \<Rightarrow> int \<Rightarrow> nat \<Rightarrow> unit_topology list" where
  "block_pair branch_size i c cin0 k =
     [depthwise_unit branch_size i (2 * k) (if k = 0 then cin0 else c) (if k = 0 then 2 else 1),
      pointwise_unit branch_size i (2 * k + 1) (if k = 0 then cin0 else c) c]"

definition stage_units :: "int \<Rightarrow> nat \<Rightarrow> int \<Rightarrow> int \<Rightarrow> int \<Rightarrow> unit_topology list" where
  "stage_units branch_size i c n cin0 = concat (map (block_pair branch_size i c cin0) [0 ..< nat n])"

text \<open>One pass of the loop body, as a pair of units, for any value of the loop variables.\<close>

definition body_pair :: "int \<Rightarrow> nat \<Rightarrow> int \<Rightarrow> int \<Rightarrow> nat \<Rightarrow> int \<Rightarrow> unit_topology list" where
  "body_pair branch_size i c strides idx cin =
     [depthwise_unit branch_size i idx cin (if idx = 0 then strides else 1),
      pointwise_unit branch_size i (idx + 1) cin c]"

text \<open>The stem, as the constructor creates it: kernel 3, stride 2, one branch, no skip path.\<close>

definition stem_unit :: "int \<Rightarrow> int \<Rightarrow> unit_topology" where
  "stem_unit stem_channels cin =
     \<lparr>u_kernel_size = 3, u_stride = 2, u_in_ch = cin, u_out_ch = stem_channels,
      u_branch_size = 1, u_has_skip = False, u_has_scale = None, u_depthwise = None,
      u_activation = ''relu'', u_name = ''stem''\<rparr>"

text \<open>
  The Units of all stages, the input channel count threaded from stage to stage: a stage
  with no block leaves it as it is.
\<close>

fun all_stage_units :: "int \<Rightarrow> (nat \<times> int \<times> int) list \<Rightarrow> int \<Rightarrow> unit_topology list" where
  "all_stage_units branch_size [] cin = []"
| "all_stage_units branch_size ((i, c, n) # rest) cin =
     stage_units branch_size i c n cin @ all_stage_units branch_size rest (if 0 < n then c else cin)"

text \<open>
  Modelled from the spec: the Fusion Engine, which is part of the class
  \<^verbatim>\<open>ReparameterizableConv2D\<close> and is not among the sources, refuses a Unit whose skip
  path is requested while its input and output channel counts differ or its stride is
  not 1.
\<close>

definition fusion_skip_error :: "unit_topology \<Rightarrow> bool" where
  "fusion_skip_error u = (u_has_skip u \<and> (u_in_ch u \<noteq> u_out_ch u \<or> u_stride u \<noteq> 1))"

text \<open>
  The rules the constructor follows for the skip path: a Unit with the skip path keeps
  the channel count and has stride 1; a depthwise Unit keeps the channel count and has
  the skip path iff its stride is 1; a Unit of kernel size 1 (pointwise) has stride 1 and
  the skip path iff input and output channel counts agree; and the Fusion Engine's
  refusal does not apply.
\<close>

definition skip_rule :: "unit_topology \<Rightarrow> bool" where
  "skip_rule u =
     ((if u_has_skip u then u_in_ch u = u_out_ch u \<and> u_stride u = 1 else True) \<and>
      (if u_depthwise u = Some True then u_out_ch u = u_in_ch u \<and> u_has_skip u = (u_stride u = 1) else True) \<and>
      (if u_kernel_size u = 1 then u_stride u = 1 \<and> u_has_skip u = (u_in_ch u = u_out_ch u) else True) \<and>
      \<not> fusion_skip_error u)"

section \<open>What the weight transfer leaves behind, as the specification words it\<close>


text \<open>The config that \<^verbatim>\<open>get_reparameterized_model\<close> passes to the constructor, lines 154 to 156.\<close>

definition reparameterized_config :: "model \<Rightarrow> config" where
  "reparameterized_config self =
     (get_config self)\<lparr>cfg_reparameterized := True,
                        cfg_kwargs := (self_kwargs self)\<lparr>kw_weights := Some None\<rparr>\<rparr>"

section \<open>Auxiliary notions for the proofs\<close>

text \<open>The graph after the stem, after the stages and after the head, by name.\<close>

definition graph_stem :: "'v backend \<Rightarrow> config \<Rightarrow> 'v store \<Rightarrow> 'v graph" where
  "graph_stem bk a s =
     (let g = build_preprocessing bk (cfg_kwargs a)
                \<lparr>g_x = \<lparr>t_channels = kw_input_channels (cfg_kwargs a), t_layer = ''input''\<rparr>,
                 g_layers = [Plain ''input'' []], g_features = [], g_heap = s\<rparr>;
          g = call_ReparameterizableConv2D bk
                \<lparr>c_filters = cfg_stem_channels a, c_kernel_size = 3, c_strides = 2,
                 c_has_skip = False, c_has_scale = None, c_use_depthwise = None,
                 c_branch_size = 1, c_reparameterized = cfg_reparameterized a,
                 c_activation = ''relu'', c_name = ''stem''\<rparr> g
      in g\<lparr>g_features := dict_set (g_features g) ''STEM_S2'' (g_x g)\<rparr>)"

definition graph_stages :: "'v backend \<Rightarrow> config \<Rightarrow> 'v store \<Rightarrow> 'v graph" where
  "graph_stages bk a s =
     stages bk (cfg_branch_size a) (cfg_reparameterized a)
       (enumerate_zip (cfg_num_channels a) (cfg_num_blocks a)) 2 (graph_stem bk a s)"

definition graph_head :: "'v backend \<Rightarrow> config \<Rightarrow> 'v store \<Rightarrow> 'v graph" where
  "graph_head bk a s = build_head bk (cfg_kwargs a) (graph_stages bk a s)"

text \<open>The channel count of the tensor the stem reads: the output of the preprocessing.\<close>

definition stem_input_channels :: "'v backend \<Rightarrow> config \<Rightarrow> int" where
  "stem_input_channels bk a =
     t_channels (snd (bk_build_preprocessing bk (cfg_kwargs a)
        \<lparr>t_channels = kw_input_channels (cfg_kwargs a), t_layer = ''input''\<rparr>))"

text \<open>The constructor's guard lets the request through.\<close>

definition passes_guard :: "config \<Rightarrow> bool" where
  "passes_guard a =
     (case kw_weights (cfg_kwargs a) of None \<Rightarrow> False
      | Some w \<Rightarrow> w = None \<or> cfg_reparameterized a = False)"

text \<open>
  The dict \<^verbatim>\<open>features\<close> after the stage loop, from the tensor and the dict before it:
  a stage with blocks ends in the output of its last pointwise layer.
\<close>

fun stage_features :: "(nat \<times> int \<times> int) list \<Rightarrow> nat \<Rightarrow> ktensor \<Rightarrow> (string \<times> ktensor) list \<Rightarrow> (string \<times> ktensor) list" where
  "stage_features [] current_strides y fs = fs"
| "stage_features ((i, c, n) # rest) current_strides y fs =
     (let y' = (if nat n = 0 then y
                else \<lparr>t_channels = c, t_layer = ''stages_'' @ str_nat i @ ''_'' @ str_nat (2 * nat n - 1)\<rparr>)
      in stage_features rest (current_strides * 2) y'
           (dict_set fs (''BLOCK'' @ str_nat i @ ''_S'' @ str_nat (current_strides * 2)) y'))"

text \<open>
  A later graph grows out of an earlier one: the store is extended at its end, and the
  variables of the layers added are exactly the new cells, in order.
\<close>

definition grows :: "'v graph \<Rightarrow> 'v graph \<Rightarrow> bool" where
  "grows g g' =
     (take (length (g_heap g)) (g_heap g') = g_heap g \<and>
      length (g_heap g) \<le> length (g_heap g') \<and>
      owned (g_layers g') = owned (g_layers g) @ [length (g_heap g) ..< length (g_heap g')])"

section \<open>Example inputs\<close>

text \<open>
  A backend over integer values, used to run the definitions on concrete inputs: a
  multi-branch layer has three variables, fusion adds them up, and every assignment is
  accepted.
\<close>

definition example_backend :: "int backend" where
  "example_backend =
     \<lparr>bk_branch_variables = (\<lambda>a cin. [1, 2, 3]),
      bk_fused_variables = (\<lambda>a cin. (0, 0)),
      bk_get_reparameterized_weights =
        (\<lambda>a cin u. case u of BranchValues vs \<Rightarrow> Inr (sum_list vs, 7)
                            | FusedValues k b \<Rightarrow> Inl TypeError),
      bk_assignable = (\<lambda>old new. True),
      bk_build_preprocessing = (\<lambda>kw y. ([], y)),
      bk_build_head = (\<lambda>kw y. ([(''head'', [10, 20])], y))\<rparr>"

definition example_config :: config where
  "example_config =
     \<lparr>cfg_num_blocks = [1], cfg_num_channels = [4], cfg_stem_channels = 4,
      cfg_branch_size = 1, cfg_reparameterized = False,
      cfg_kwargs = \<lparr>kw_weights = Some (Some ''imagenet''), kw_input_channels = 3, kw_other = []\<rparr>\<rparr>"

text \<open>
  The model that the constructor builds for \<open>example_config\<close> on the empty store, the
  store it leaves, and the model that \<^verbatim>\<open>get_reparameterized_model\<close> creates from it.
\<close>

definition example_store :: "int store" where
  "example_store = [1, 2, 3, 1, 2, 3, 1, 2, 3, 10, 20]"

definition example_source :: model where
  "example_source =
     \<lparr>self_layers =
        [Plain ''input'' [],
         ReparameterizableConv2D
           \<lparr>c_filters = 4, c_kernel_size = 3, c_strides = 2, c_has_skip = False,
            c_has_scale = None, c_use_depthwise = None, c_branch_size = 1,
            c_reparameterized = False, c_activation = ''relu'', c_name = ''stem''\<rparr>
           3 (Branches [0, 1, 2]),
         ReparameterizableConv2D
           \<lparr>c_filters = 4, c_kernel_size = 3, c_strides = 2, c_has_skip = False,
            c_has_scale = None, c_use_depthwise = Some True, c_branch_size = 1,
            c_reparameterized = False, c_activation = ''relu'', c_name = ''stages_0_0''\<rparr>
           4 (Branches [3, 4, 5]),
         ReparameterizableConv2D
           \<lparr>c_filters = 4, c_kernel_size = 1, c_strides = 1, c_has_skip = True,
            c_has_scale = Some False, c_use_depthwise = Some False, c_branch_size = 1,
            c_reparameterized = False, c_activation = ''relu'', c_name = ''stages_0_1''\<rparr>
           4 (Branches [6, 7, 8]),
         Plain ''head'' [9, 10]],
      self_features =
        [(''STEM_S2'', \<lparr>t_channels = 4, t_layer = ''stem''\<rparr>),
         (''BLOCK0_S4'', \<lparr>t_channels = 4, t_layer = ''stages_0_1''\<rparr>)],
      self_outputs = \<lparr>t_channels = 4, t_layer = ''stages_0_1''\<rparr>,
      self_kwargs = \<lparr>kw_weights = Some (Some ''imagenet''), kw_input_channels = 3, kw_other = []\<rparr>,
      self_num_blocks = [1], self_num_channels = [4], self_stem_channels = 4,
      self_branch_size = 1, self_reparameterized = False\<rparr>"

definition example_target :: model where
  "example_target =
     \<lparr>self_layers =
        [Plain ''input'' [],
         ReparameterizableConv2D
           \<lparr>c_filters = 4, c_kernel_size = 3, c_strides = 2, c_has_skip = False,
            c_has_scale = None, c_use_depthwise = None, c_branch_size = 1,
            c_reparameterized = True, c_activation = ''relu'', c_name = ''stem''\<rparr>
           3 (Fused 11 12),
         ReparameterizableConv2D
           \<lparr>c_filters = 4, c_kernel_size = 3, c_strides = 2, c_has_skip = False,
            c_has_scale = None, c_use_depthwise = Some True, c_branch_size = 1,
            c_reparameterized = True, c_activation = ''relu'', c_name = ''stages_0_0''\<rparr>
           4 (Fused 13 14),
         ReparameterizableConv2D
           \<lparr>c_filters = 4, c_kernel_size = 1, c_strides = 1, c_has_skip = True,
            c_has_scale = Some False, c_use_depthwise = Some False, c_branch_size = 1,
            c_reparameterized = True, c_activation = ''relu'', c_name = ''stages_0_1''\<rparr>
           4 (Fused 15 16),
         Plain ''head'' [17, 18]],
      self_features =
        [(''STEM_S2'', \<lparr>t_channels = 4, t_layer = ''stem''\<rparr>),
         (''BLOCK0_S4'', \<lparr>t_channels = 4, t_layer = ''stages_0_1''\<rparr>)],
      self_outputs = \<lparr>t_channels = 4, t_layer = ''stages_0_1''\<rparr>,
      self_kwargs = \<lparr>kw_weights = Some None, kw_input_channels = 3, kw_other = []\<rparr>,
      self_num_blocks = [1], self_num_channels = [4], self_stem_channels = 4,
      self_branch_size = 1, self_reparameterized = True\<rparr>"

text \<open>A backend whose fusion refuses every layer that has the skip path.\<close>

definition failing_backend :: "int backend" where
  "failing_backend =
     example_backend\<lparr>bk_get_reparameterized_weights :=
        (\<lambda>a cin u. if c_has_skip a then Inl ValueError else Inr (5, 7))\<rparr>"

text \<open>
  The constructor arguments of \<^verbatim>\<open>MobileOneS0\<close>, a request without pretrained weights,
  and a request with two channel widths and one block count.
\<close>

definition mobileone_s0_config :: config where
  "mobileone_s0_config =
     \<lparr>cfg_num_blocks = [2, 8, 10, 1], cfg_num_channels = [48, 128, 256, 1024],
      cfg_stem_channels = 48, cfg_branch_size = 4, cfg_reparameterized = False,
      cfg_kwargs = \<lparr>kw_weights = Some (Some ''imagenet''), kw_input_channels = 3, kw_other = []\<rparr>\<rparr>"

definition untrained_config :: config where
  "untrained_config =
     \<lparr>cfg_num_blocks = [1], cfg_num_channels = [4], cfg_stem_channels = 4,
      cfg_branch_size = 1, cfg_reparameterized = False,
      cfg_kwargs = \<lparr>kw_weights = Some None, kw_input_channels = 3, kw_other = []\<rparr>\<rparr>"


section \<open>Properties of the graph construction\<close>

lemma units_append: "units (xs @ ys) = units xs @ units ys"
  by (induction xs rule: units.induct) simp_all

lemma unit_modes_append: "unit_modes (xs @ ys) = unit_modes xs @ unit_modes ys"
  by (induction xs rule: unit_modes.induct) simp_all

lemma owned_append: "owned (xs @ ys) = owned xs @ owned ys"
  by (simp add: owned_def)

lemma call_x: "g_x (call_ReparameterizableConv2D bk a g) = \<lparr>t_channels = c_filters a, t_layer = c_name a\<rparr>"
  by (simp add: call_ReparameterizableConv2D_def Let_def split: prod.splits)

lemma call_features: "g_features (call_ReparameterizableConv2D bk a g) = g_features g"
  by (simp add: call_ReparameterizableConv2D_def Let_def split: prod.splits)


lemma call_units:
  "units (g_layers (call_ReparameterizableConv2D bk a g)) =
     units (g_layers g) @ [topology a (t_channels (g_x g))]"
  by (simp add: call_ReparameterizableConv2D_def Let_def units_append split: prod.splits)

lemma call_modes:
  "unit_modes (g_layers (call_ReparameterizableConv2D bk a g)) =
     unit_modes (g_layers g) @ [c_reparameterized a]"
  by (auto simp add: call_ReparameterizableConv2D_def Let_def alloc_def unit_modes_append split: prod.splits)

lemma call_heap_prefix:
  "\<exists>vs. g_heap (call_ReparameterizableConv2D bk a g) = g_heap g @ vs"
  by (auto simp add: call_ReparameterizableConv2D_def Let_def alloc_def split: prod.splits)

lemma call_owned:
  "owned (g_layers (call_ReparameterizableConv2D bk a g)) =
     owned (g_layers g) @ [length (g_heap g) ..< length (g_heap (call_ReparameterizableConv2D bk a g))]"
proof (cases "c_reparameterized a")
  case True
  have "[length (g_heap g) ..< Suc (Suc (length (g_heap g)))] = [length (g_heap g), Suc (length (g_heap g))]"
    by (simp add: upt_conv_Cons)
  with True show ?thesis
    by (simp add: call_ReparameterizableConv2D_def Let_def owned_def split: prod.splits)
next
  case False
  then show ?thesis
    by (simp add: call_ReparameterizableConv2D_def Let_def alloc_def owned_def split: prod.splits)
qed


lemma map_upt_Suc: "map f [0 ..< Suc k] = f 0 # map (\<lambda>j. f (Suc j)) [0 ..< k]"
proof -
  have "[0 ..< Suc k] = 0 # map Suc [0 ..< k]"
    by (simp only: map_Suc_upt upt_conv_Cons[OF zero_less_Suc])
  then show ?thesis
    by (simp only: list.map map_map comp_def)
qed

lemma body_pair_later:
  "body_pair branch_size i c strides' (Suc (Suc idx)) cin = body_pair branch_size i c strides (Suc (Suc idx)) cin"
  by (simp add: body_pair_def)

lemma blocks_units_gen:
  "units (g_layers (blocks bk branch_size rep i c k strides idx g)) =
     units (g_layers g) @
     concat (map (\<lambda>j. body_pair branch_size i c strides (idx + 2 * j)
                         (if j = 0 then t_channels (g_x g) else c)) [0 ..< k])"
proof (induction k arbitrary: strides idx g)
  case 0
  show ?case by simp
next
  case (Suc k)
  let ?st = "if idx = 0 then strides else 1"
  let ?cin = "t_channels (g_x g)"
  let ?a1 = "\<lparr>c_filters = ?cin, c_kernel_size = 3, c_strides = ?st,
                 c_has_skip = (?st = 1), c_has_scale = None, c_use_depthwise = Some True,
                 c_branch_size = branch_size, c_reparameterized = rep,
                 c_activation = ''relu'',
                 c_name = ''stages_'' @ str_nat i @ ''_'' @ str_nat idx\<rparr>"
  let ?a2 = "\<lparr>c_filters = c, c_kernel_size = 1, c_strides = 1,
                 c_has_skip = (?cin = c), c_has_scale = Some False, c_use_depthwise = Some False,
                 c_branch_size = branch_size, c_reparameterized = rep,
                 c_activation = ''relu'',
                 c_name = ''stages_'' @ str_nat i @ ''_'' @ str_nat (idx + 1)\<rparr>"
  let ?g1 = "call_ReparameterizableConv2D bk ?a1 g"
  let ?g2 = "call_ReparameterizableConv2D bk ?a2 ?g1"
  have step: "blocks bk branch_size rep i c (Suc k) strides idx g =
      blocks bk branch_size rep i c k ?st (idx + 2) ?g2"
    by (simp add: Let_def)
  have first: "units (g_layers ?g2) =
      units (g_layers g) @ body_pair branch_size i c strides idx ?cin"
    by (simp add: call_units call_x topology_def body_pair_def depthwise_unit_def pointwise_unit_def)
  have x2: "t_channels (g_x ?g2) = c"
    by (simp add: call_x)
  have rest: "map (\<lambda>j. body_pair branch_size i c ?st (idx + 2 + 2 * j)
                         (if j = 0 then t_channels (g_x ?g2) else c)) [0 ..< k] =
        map (\<lambda>j. body_pair branch_size i c strides (idx + 2 * Suc j)
                         (if Suc j = 0 then ?cin else c)) [0 ..< k]"
    by (simp add: call_x body_pair_later)
  show ?case
    unfolding step Suc.IH first rest map_upt_Suc
    by simp
qed

lemma block_pair_body:
  "block_pair branch_size i c cin0 j =
     body_pair branch_size i c 2 (0 + 2 * j) (if j = 0 then cin0 else c)"
  by (simp add: block_pair_def body_pair_def)

lemma blocks_x:
  "t_channels (g_x (blocks bk branch_size rep i c k strides idx g)) =
     (if k = 0 then t_channels (g_x g) else c)"
  by (induction k arbitrary: strides idx g) (simp_all add: Let_def call_x)


lemma blocks_features:
  "g_features (blocks bk branch_size rep i c k strides idx g) = g_features g"
  by (induction k arbitrary: strides idx g) (simp_all add: Let_def call_features)

lemma blocks_modes:
  "unit_modes (g_layers (blocks bk branch_size rep i c k strides idx g)) =
     unit_modes (g_layers g) @ replicate (2 * k) rep"
proof (induction k arbitrary: strides idx g)
  case 0
  show ?case by simp
next
  case (Suc k)
  show ?case
    by (simp add: Let_def Suc call_modes replicate_app_Cons_same)
qed

lemma stage_units_blocks:
  "units (g_layers (blocks bk branch_size rep i c (nat n) 2 0 g)) =
     units (g_layers g) @ stage_units branch_size i c n (t_channels (g_x g))"
  unfolding blocks_units_gen stage_units_def block_pair_body ..

subsection \<open>Layers of the base class\<close>

lemma add_plain_x: "g_x (add_plain_layers ls g) = g_x g"
  by (induction ls g rule: add_plain_layers.induct) (simp_all add: alloc_def)

lemma add_plain_features: "g_features (add_plain_layers ls g) = g_features g"
  by (induction ls g rule: add_plain_layers.induct) (simp_all add: alloc_def)

lemma add_plain_units: "units (g_layers (add_plain_layers ls g)) = units (g_layers g)"
  by (induction ls g rule: add_plain_layers.induct) (simp_all add: alloc_def units_append)

lemma add_plain_modes: "unit_modes (g_layers (add_plain_layers ls g)) = unit_modes (g_layers g)"
  by (induction ls g rule: add_plain_layers.induct) (simp_all add: alloc_def unit_modes_append)

subsection \<open>The constructor in terms of the named graphs\<close>

lemma MobileOne_init_graph:
  "MobileOne_init bk a s =
     (case kw_weights (cfg_kwargs a) of
        None \<Rightarrow> (Inl KeyError, s)
      | Some w \<Rightarrow>
          if w \<noteq> None \<and> cfg_reparameterized a then (Inl ValueError, s)
          else (Inr \<lparr>self_layers = g_layers (graph_head bk a s),
                     self_features = g_features (graph_stages bk a s),
                     self_outputs = g_x (graph_head bk a s),
                     self_kwargs = cfg_kwargs a,
                     self_num_blocks = cfg_num_blocks a, self_num_channels = cfg_num_channels a,
                     self_stem_channels = cfg_stem_channels a, self_branch_size = cfg_branch_size a,
                     self_reparameterized = cfg_reparameterized a\<rparr>,
                g_heap (graph_head bk a s)))"
  by (simp add: MobileOne_init_def graph_head_def graph_stages_def graph_stem_def Let_def
      split: option.splits)

lemma MobileOne_init_Inr:
  assumes "MobileOne_init bk a s = (Inr m, s')"
  shows "self_layers m = g_layers (graph_head bk a s)"
    and "self_features m = g_features (graph_stages bk a s)"
    and "s' = g_heap (graph_head bk a s)"
    and "get_config m = a"
    and "passes_guard a"
  using assms
  by (auto simp add: MobileOne_init_graph get_config_def passes_guard_def split: option.splits if_splits)

lemma MobileOne_init_Inl:
  assumes "MobileOne_init bk a s = (Inl e, s')"
  shows "s' = s" and "\<not> passes_guard a"
  using assms
  by (auto simp add: MobileOne_init_graph passes_guard_def split: option.splits if_splits)

lemma MobileOne_init_passes:
  assumes "passes_guard a"
  shows "\<exists>m. MobileOne_init bk a s = (Inr m, g_heap (graph_head bk a s))"
  using assms
  by (auto simp add: MobileOne_init_graph passes_guard_def split: option.splits if_splits)

subsection \<open>Fresh variables\<close>

lemma grows_refl: "grows g g"
  by (simp add: grows_def)

lemma upt_join: "i \<le> j \<Longrightarrow> j \<le> k \<Longrightarrow> [i ..< j] @ [j ..< k] = [i ..< (k::nat)]"
  by (metis le_Suc_ex upt_add_eq_append)

lemma grows_trans:
  assumes "grows g1 g2" and "grows g2 g3"
  shows "grows g1 g3"
proof -
  let ?n1 = "length (g_heap g1)" and ?n2 = "length (g_heap g2)" and ?n3 = "length (g_heap g3)"
  from assms have le: "?n1 \<le> ?n2" "?n2 \<le> ?n3"
    by (simp_all add: grows_def)
  from assms have "take ?n1 (take ?n2 (g_heap g3)) = g_heap g1"
    by (simp add: grows_def)
  with le have t: "take ?n1 (g_heap g3) = g_heap g1"
    by (simp add: min_def)
  from assms have "owned (g_layers g3) = owned (g_layers g1) @ [?n1 ..< ?n2] @ [?n2 ..< ?n3]"
    by (simp add: grows_def)
  with le have "owned (g_layers g3) = owned (g_layers g1) @ [?n1 ..< ?n3]"
    by (simp add: upt_join)
  with t le show ?thesis
    by (simp add: grows_def)
qed

lemma grows_call: "grows g (call_ReparameterizableConv2D bk a g)"
proof -
  obtain vs where "g_heap (call_ReparameterizableConv2D bk a g) = g_heap g @ vs"
    using call_heap_prefix by blast
  then show ?thesis
    by (simp add: grows_def call_owned)
qed

lemma grows_x [simp]: "grows g (g'\<lparr>g_x := y\<rparr>) = grows g g'"
  by (simp add: grows_def)

lemma grows_features [simp]: "grows g (g'\<lparr>g_features := f\<rparr>) = grows g g'"
  by (simp add: grows_def)

lemma grows_add_plain: "grows g (add_plain_layers ls g)"
proof (induction ls g rule: add_plain_layers.induct)
  case (1 g)
  show ?case by (simp add: grows_refl)
next
  case (2 nm vs rest g)
  let ?g1 = "g\<lparr>g_layers := g_layers g @ [Plain nm [length (g_heap g) ..< length (g_heap g) + length vs]],
                g_heap := g_heap g @ vs\<rparr>"
  have "grows g ?g1"
    by (simp add: grows_def owned_def)
  moreover have "grows ?g1 (add_plain_layers rest ?g1)"
    using 2 by (simp add: alloc_def)
  ultimately show ?case
    by (simp add: alloc_def) (rule grows_trans)
qed

lemma grows_blocks: "grows g (blocks bk branch_size rep i c k strides idx g)"
proof (induction k arbitrary: strides idx g)
  case 0
  show ?case by (simp add: grows_refl)
next
  case (Suc k)
  show ?case
    by (simp add: Let_def) (blast intro: grows_trans grows_call Suc)
qed

lemma grows_stages: "grows g (stages bk branch_size rep sts cs g)"
proof (induction sts arbitrary: cs g)
  case Nil
  show ?case by (simp add: grows_refl)
next
  case (Cons st sts)
  obtain i c n where st: "st = (i, c, n)" by (cases st) auto
  have a: "grows g (blocks bk branch_size rep i c (nat n) 2 0 g)"
    by (rule grows_blocks)
  show ?case
    unfolding st
    apply (simp add: Let_def)
    apply (rule grows_trans[OF _ Cons])
    apply (simp add: a)
    done
qed

lemma grows_build_preprocessing: "grows g (build_preprocessing bk kw g)"
  by (simp add: build_preprocessing_def grows_add_plain split: prod.splits)

lemma grows_build_head: "grows g (build_head bk kw g)"
  by (simp add: build_head_def grows_add_plain split: prod.splits)

lemma init_fresh:
  assumes "MobileOne_init bk a s = (Inr m, s1)"
  shows "take (length s) s1 = s" and "length s \<le> length s1"
    and "owned (self_layers m) = [length s ..< length s1]"
proof -
  let ?g0 = "\<lparr>g_x = \<lparr>t_channels = kw_input_channels (cfg_kwargs a), t_layer = ''input''\<rparr>,
              g_layers = [Plain ''input'' []], g_features = [], g_heap = s\<rparr> :: 'a graph"
  have "grows ?g0 (graph_stem bk a s)"
    unfolding graph_stem_def Let_def
    by (simp add: grows_trans[OF grows_build_preprocessing grows_call])
  moreover have "grows (graph_stem bk a s) (graph_stages bk a s)"
    unfolding graph_stages_def by (rule grows_stages)
  moreover have "grows (graph_stages bk a s) (graph_head bk a s)"
    unfolding graph_head_def by (rule grows_build_head)
  ultimately have "grows ?g0 (graph_head bk a s)"
    by (blast intro: grows_trans)
  with MobileOne_init_Inr(1,3)[OF assms]
  show "take (length s) s1 = s" and "length s \<le> length s1"
    and "owned (self_layers m) = [length s ..< length s1]"
    by (simp_all add: grows_def owned_def)
qed

subsection \<open>Units and feature keys of the whole model\<close>

lemma stages_units:
  "units (g_layers (stages bk branch_size rep sts cs g)) =
     units (g_layers g) @ all_stage_units branch_size sts (t_channels (g_x g))"
proof (induction sts arbitrary: cs g)
  case Nil
  show ?case by simp
next
  case (Cons st sts)
  obtain i c n where st: "st = (i, c, n)" by (cases st) auto
  show ?case
    unfolding st
    by (simp add: Let_def Cons stage_units_blocks blocks_x)
qed

lemma stages_modes:
  "unit_modes (g_layers (stages bk branch_size rep sts cs g)) =
     unit_modes (g_layers g) @ replicate (length (all_stage_units branch_size sts cin)) rep"
proof (induction sts arbitrary: cs g cin)
  case Nil
  show ?case by simp
next
  case (Cons st sts)
  obtain i c n where st: "st = (i, c, n)" by (cases st) auto
  have len: "length (stage_units branch_size i c n cin0) = 2 * nat n" for cin0
    by (simp add: stage_units_def block_pair_def length_concat comp_def sum_list_triv)
  show ?case
    unfolding st
    by (simp add: Let_def Cons[where cin = "if 0 < n then c else cin"] blocks_modes len replicate_add[symmetric])
qed

lemma blocks_tensor:
  "g_x (blocks bk branch_size rep i c k strides idx g) =
     (if k = 0 then g_x g
      else \<lparr>t_channels = c, t_layer = ''stages_'' @ str_nat i @ ''_'' @ str_nat (idx + 2 * k - 1)\<rparr>)"
proof (induction k arbitrary: strides idx g)
  case 0
  show ?case by simp
next
  case (Suc k)
  show ?case
    by (simp add: Let_def Suc call_x)
qed

lemma stages_features:
  "g_features (stages bk branch_size rep sts cs g) = stage_features sts cs (g_x g) (g_features g)"
proof (induction sts arbitrary: cs g)
  case Nil
  show ?case by simp
next
  case (Cons st sts)
  obtain i c n where st: "st = (i, c, n)" by (cases st) auto
  show ?case
    unfolding st
    by (simp add: Let_def Cons blocks_features blocks_tensor)
qed

lemma stem_units:
  "units (g_layers (graph_stem bk a s)) = [stem_unit (cfg_stem_channels a) (stem_input_channels bk a)]"
  by (simp add: graph_stem_def Let_def call_units build_preprocessing_def add_plain_units add_plain_x
      topology_def stem_unit_def stem_input_channels_def split: prod.splits)

lemma stem_x: "t_channels (g_x (graph_stem bk a s)) = cfg_stem_channels a"
  by (simp add: graph_stem_def Let_def call_x)

lemma stem_modes: "unit_modes (g_layers (graph_stem bk a s)) = [cfg_reparameterized a]"
  by (simp add: graph_stem_def Let_def call_modes build_preprocessing_def add_plain_modes
      split: prod.splits)

lemma stem_features:
  "g_features (graph_stem bk a s) = [(''STEM_S2'', \<lparr>t_channels = cfg_stem_channels a, t_layer = ''stem''\<rparr>)]"
  by (simp add: graph_stem_def Let_def call_features call_x build_preprocessing_def add_plain_features
      split: prod.splits)

lemma stem_tensor:
  "g_x (graph_stem bk a s) = \<lparr>t_channels = cfg_stem_channels a, t_layer = ''stem''\<rparr>"
  by (simp add: graph_stem_def Let_def call_x)

lemma model_units:
  "units (g_layers (graph_head bk a s)) =
     stem_unit (cfg_stem_channels a) (stem_input_channels bk a) #
     all_stage_units (cfg_branch_size a) (enumerate_zip (cfg_num_channels a) (cfg_num_blocks a))
       (cfg_stem_channels a)"
  by (simp add: graph_head_def build_head_def add_plain_units graph_stages_def stages_units
      stem_units stem_x split: prod.splits)

lemma model_modes:
  "unit_modes (g_layers (graph_head bk a s)) =
     replicate (length (units (g_layers (graph_head bk a s)))) (cfg_reparameterized a)"
proof -
  have "unit_modes (g_layers (graph_head bk a s)) =
      cfg_reparameterized a #
      replicate (length (all_stage_units (cfg_branch_size a)
        (enumerate_zip (cfg_num_channels a) (cfg_num_blocks a)) (cfg_stem_channels a)))
        (cfg_reparameterized a)"
    by (simp add: graph_head_def build_head_def add_plain_modes graph_stages_def
        stages_modes[where cin = "cfg_stem_channels a"] stem_modes split: prod.splits)
  then show ?thesis
    by (simp add: model_units)
qed

lemma model_features:
  "g_features (graph_stages bk a s) =
     stage_features (enumerate_zip (cfg_num_channels a) (cfg_num_blocks a)) 2
       \<lparr>t_channels = cfg_stem_channels a, t_layer = ''stem''\<rparr>
       [(''STEM_S2'', \<lparr>t_channels = cfg_stem_channels a, t_layer = ''stem''\<rparr>)]"
  by (simp add: graph_stages_def stages_features stem_features stem_tensor)

lemma skip_rule_stage: "list_all skip_rule (stage_units branch_size i c n cin)"
  by (auto simp add: stage_units_def list_all_iff block_pair_def skip_rule_def fusion_skip_error_def
      depthwise_unit_def pointwise_unit_def)

lemma skip_rule_stages: "list_all skip_rule (all_stage_units branch_size sts cin)"
  by (induction branch_size sts cin rule: all_stage_units.induct) (simp_all add: skip_rule_stage)

lemma skip_rule_stem: "skip_rule (stem_unit c cin)"
  by (simp add: skip_rule_def stem_unit_def fusion_skip_error_def)

lemma str_nat_values:
  "str_nat 0 = ''0''" "str_nat (Suc 0) = ''1''" "str_nat 1 = ''1''" "str_nat 2 = ''2''"
  "str_nat 3 = ''3''" "str_nat 4 = ''4''" "str_nat 8 = ''8''" "str_nat 15 = ''15''"
  "str_nat 16 = ''16''" "str_nat 19 = ''19''" "str_nat 32 = ''32''"
  by (simp_all add: str_nat.simps digit_char_def)

lemma enumerate_zip_four:
  "enumerate_zip [a0, a1, a2, a3] [b0, b1, b2, b3] = [(0, a0, b0), (1, a1, b1), (2, a2, b2), (3, a3, b3)]"
  by (simp add: enumerate_zip_def upt_conv_Cons)


lemma example_source_built:
  "MobileOne_init example_backend example_config [] = (Inr example_source, example_store)"
  by code_simp

section \<open>Claims about the constructor\<close>




text \<open>
  C4. For \<^verbatim>\<open>num_blocks=[2,8,10,1]\<close>, \<^verbatim>\<open>num_channels=[48,128,256,1024]\<close> and
  \<^verbatim>\<open>stem_channels=48\<close>, whatever the branch size, the mode and the backend, the keys of
  the constructed model's features are, in insertion order, \<^verbatim>\<open>STEM_S2\<close>, \<^verbatim>\<open>BLOCK0_S4\<close>,
  \<^verbatim>\<open>BLOCK1_S8\<close>, \<^verbatim>\<open>BLOCK2_S16\<close>, \<^verbatim>\<open>BLOCK3_S32\<close>, and no key occurs twice.
  \<^verbatim>\<open>STEM_S2\<close> is the output of the stem, and \<^verbatim>\<open>BLOCK\<close>\<open>i\<close> is the output of the last
  layer of stage \<open>i\<close>, named after a stride that starts at 2 and doubles with every stage.
\<close>

theorem feature_keys_s0:
  assumes "MobileOne_init bk a s = (Inr m, s')"
      and "cfg_num_blocks a = [2, 8, 10, 1]"
      and "cfg_num_channels a = [48, 128, 256, 1024]"
      and "cfg_stem_channels a = 48"
  shows "dict_keys (self_features m) =
           [''STEM_S2'', ''BLOCK0_S4'', ''BLOCK1_S8'', ''BLOCK2_S16'', ''BLOCK3_S32''] \<and>
         distinct (dict_keys (self_features m)) \<and>
         self_features m =
           [(''STEM_S2'', \<lparr>t_channels = 48, t_layer = ''stem''\<rparr>),
            (''BLOCK0_S4'', \<lparr>t_channels = 48, t_layer = ''stages_0_3''\<rparr>),
            (''BLOCK1_S8'', \<lparr>t_channels = 128, t_layer = ''stages_1_15''\<rparr>),
            (''BLOCK2_S16'', \<lparr>t_channels = 256, t_layer = ''stages_2_19''\<rparr>),
            (''BLOCK3_S32'', \<lparr>t_channels = 1024, t_layer = ''stages_3_1''\<rparr>)]"
proof -
  have "self_features m =
           [(''STEM_S2'', \<lparr>t_channels = 48, t_layer = ''stem''\<rparr>),
            (''BLOCK0_S4'', \<lparr>t_channels = 48, t_layer = ''stages_0_3''\<rparr>),
            (''BLOCK1_S8'', \<lparr>t_channels = 128, t_layer = ''stages_1_15''\<rparr>),
            (''BLOCK2_S16'', \<lparr>t_channels = 256, t_layer = ''stages_2_19''\<rparr>),
            (''BLOCK3_S32'', \<lparr>t_channels = 1024, t_layer = ''stages_3_1''\<rparr>)]"
    using MobileOne_init_Inr(2)[OF assms(1)] assms(2,3,4)
    by (simp add: model_features enumerate_zip_four Let_def str_nat_values)
  then show ?thesis
    by (simp add: dict_keys_def)
qed

theorem feature_keys_s0_witness:
  "cfg_num_blocks mobileone_s0_config = [2, 8, 10, 1] \<and>
   cfg_num_channels mobileone_s0_config = [48, 128, 256, 1024] \<and>
   cfg_stem_channels mobileone_s0_config = 48 \<and>
   \<not> isl (fst (MobileOne_init example_backend mobileone_s0_config [])) \<and>
   dict_keys (self_features (projr (fst (MobileOne_init example_backend mobileone_s0_config [])))) =
     [''STEM_S2'', ''BLOCK0_S4'', ''BLOCK1_S8'', ''BLOCK2_S16'', ''BLOCK3_S32''] \<and>
   distinct (dict_keys (self_features (projr (fst (MobileOne_init example_backend mobileone_s0_config [])))))"
proof -
  have "passes_guard mobileone_s0_config"
    by (simp add: passes_guard_def mobileone_s0_config_def)
  then obtain m where e: "MobileOne_init example_backend mobileone_s0_config [] =
      (Inr m, g_heap (graph_head example_backend mobileone_s0_config []))"
    using MobileOne_init_passes by blast
  have h2: "cfg_num_blocks mobileone_s0_config = [2, 8, 10, 1]"
    and h3: "cfg_num_channels mobileone_s0_config = [48, 128, 256, 1024]"
    and h4: "cfg_stem_channels mobileone_s0_config = 48"
    by (simp_all add: mobileone_s0_config_def)
  note c = feature_keys_s0 [OF e h2 h3 h4]
  from c[THEN conjunct1] c[THEN conjunct2, THEN conjunct1] h2 h3 h4 show ?thesis
    by (simp add: e)
qed

text \<open>
  C5. Constructing with the same arguments once with \<^verbatim>\<open>reparameterized=False\<close> and once
  with \<^verbatim>\<open>reparameterized=True\<close> gives the same sequence of Units as far as their static
  fields go (kernel size, stride, input and output channels, branch size, skip and scale
  flags, depthwise flag, activation, name), hence of the same length; the Units of the
  first model are all in the multi-branch form, those of the second all in the
  reparameterized form.
\<close>

theorem same_topology_both_modes:
  assumes "MobileOne_init bk (a\<lparr>cfg_reparameterized := False\<rparr>) s = (Inr mT, sT)"
      and "MobileOne_init bk (a\<lparr>cfg_reparameterized := True\<rparr>) s' = (Inr mI, sI)"
  shows "units (self_layers mT) = units (self_layers mI) \<and>
         length (units (self_layers mT)) = length (units (self_layers mI)) \<and>
         unit_modes (self_layers mT) = replicate (length (units (self_layers mT))) False \<and>
         unit_modes (self_layers mI) = replicate (length (units (self_layers mI))) True"
  using MobileOne_init_Inr(1)[OF assms(1)] MobileOne_init_Inr(1)[OF assms(2)]
    model_modes[of bk "a\<lparr>cfg_reparameterized := False\<rparr>" s]
    model_modes[of bk "a\<lparr>cfg_reparameterized := True\<rparr>" s']
  by (simp add: model_units stem_input_channels_def)

theorem same_topology_both_modes_witness:
  "\<not> isl (fst (MobileOne_init example_backend (untrained_config\<lparr>cfg_reparameterized := False\<rparr>) [])) \<and>
   \<not> isl (fst (MobileOne_init example_backend (untrained_config\<lparr>cfg_reparameterized := True\<rparr>) [])) \<and>
   units (self_layers (projr (fst (MobileOne_init example_backend (untrained_config\<lparr>cfg_reparameterized := False\<rparr>) [])))) =
   units (self_layers (projr (fst (MobileOne_init example_backend (untrained_config\<lparr>cfg_reparameterized := True\<rparr>) [])))) \<and>
   length (units (self_layers (projr (fst (MobileOne_init example_backend (untrained_config\<lparr>cfg_reparameterized := True\<rparr>) []))))) = 3 \<and>
   unit_modes (self_layers (projr (fst (MobileOne_init example_backend (untrained_config\<lparr>cfg_reparameterized := False\<rparr>) [])))) =
     [False, False, False] \<and>
   unit_modes (self_layers (projr (fst (MobileOne_init example_backend (untrained_config\<lparr>cfg_reparameterized := True\<rparr>) [])))) =
     [True, True, True]"
proof -
  let ?rT = "MobileOne_init example_backend (untrained_config\<lparr>cfg_reparameterized := False\<rparr>) []"
  let ?rI = "MobileOne_init example_backend (untrained_config\<lparr>cfg_reparameterized := True\<rparr>) []"
  have nT: "\<not> isl (fst ?rT)" and nI: "\<not> isl (fst ?rI)"
    by code_simp+
  have hT: "?rT = (Inr (projr (fst ?rT)), snd ?rT)"
    using nT by (cases ?rT; cases "fst ?rT") auto
  have hI: "?rI = (Inr (projr (fst ?rI)), snd ?rI)"
    using nI by (cases ?rI; cases "fst ?rI") auto
  have len: "length (units (self_layers (projr (fst ?rI)))) = 3"
    by code_simp
  note c = same_topology_both_modes [OF hT hI]
  from c len show ?thesis
    using nT nI by (simp add: numeral_3_eq_3)
qed




text \<open>
  C9. Every Unit of a constructed model, in either mode, obeys \<open>skip_rule\<close>: if it has
  the skip path, its input and output channel counts agree and its stride is 1; a
  depthwise Unit keeps the channel count and has the skip path exactly when its stride is
  1; a pointwise Unit has stride 1 and the skip path exactly when its input has the
  stage's channel width; so the condition under which the Fusion Engine refuses a skip
  path holds for no Unit of the model.
\<close>

theorem assembled_skip_valid:
  assumes "MobileOne_init bk a s = (Inr m, s')"
  shows "list_all skip_rule (units (self_layers m))"
  using MobileOne_init_Inr(1)[OF assms]
  by (simp add: model_units skip_rule_stem skip_rule_stages)

theorem assembled_skip_valid_witness:
  "MobileOne_init example_backend example_config [] = (Inr example_source, example_store) \<and>
   list_all skip_rule (units (self_layers example_source))"
  by (intro conjI example_source_built assembled_skip_valid [OF example_source_built])

section \<open>Properties of the weight transfer\<close>

lemma get_reparameterized_model_unfold:
  "get_reparameterized_model bk self s =
     (case MobileOne_init bk (reparameterized_config self) s of
        (Inl e, s1) \<Rightarrow> (Inl e, s1)
      | (Inr model, s1) \<Rightarrow>
          (case transfer bk (zip (self_layers self) (self_layers model)) s1 of
             (Some e, s2) \<Rightarrow> (Inl e, s2)
           | (None, s2) \<Rightarrow> (Inr model, s2)))"
  by (simp add: get_reparameterized_model_def reparameterized_config_def Let_def get_config_def)

lemma transfer_append:
  "transfer bk (ps @ qs) s =
     (case transfer bk ps s of (Some e, s') \<Rightarrow> (Some e, s') | (None, s') \<Rightarrow> transfer bk qs s')"
proof (induction ps arbitrary: s)
  case Nil
  show ?case by simp
next
  case (Cons p ps)
  obtain l rl where p: "p = (l, rl)" by (cases p) auto
  show ?case
    unfolding p by (simp add: Cons split: prod.splits option.splits)
qed

subsection \<open>What a transfer can change\<close>

lemma assign_frame:
  assumes "assign bk a v s = (r, s')"
  shows "length s' = length s" and "b \<noteq> a \<Longrightarrow> s' ! b = s ! b"
  using assms by (auto simp add: assign_def split: if_splits)

lemma copy_weights_frame:
  assumes "copy_weights bk zs s = (r, s')"
  shows "length s' = length s \<and> (\<forall>b. b \<notin> snd ` set zs \<longrightarrow> s' ! b = s ! b)"
  using assms
proof (induction zs arbitrary: s)
  case Nil
  then show ?case by simp
next
  case (Cons z zs)
  obtain w tw where z: "z = (w, tw)" by (cases z) auto
  obtain r1 s1 where a: "assign bk tw (s ! w) s = (r1, s1)" by (cases "assign bk tw (s ! w) s") auto
  show ?case
  proof (cases r1)
    case None
    with Cons.prems z a have "copy_weights bk zs s1 = (r, s')" by simp
    from Cons.IH[OF this] assign_frame[OF a] show ?thesis
      unfolding z by auto
  next
    case (Some e)
    with Cons.prems z a have "s' = s1" by simp
    with assign_frame[OF a] show ?thesis
      unfolding z by auto
  qed
qed

lemma transfer_layer_frame:
  assumes "transfer_layer bk l rl s = (r, s')"
  shows "length s' = length s \<and> (\<forall>b. b \<notin> set (weights rl) \<longrightarrow> s' ! b = s ! b)"
proof (cases l)
  case (Plain nm ws)
  with assms have "copy_weights bk (zip ws (weights rl)) s = (r, s')"
    by (simp add: transfer_layer_def)
  moreover have "snd ` set (zip ws (weights rl)) \<subseteq> set (weights rl)"
    by (auto dest: set_zip_rightD)
  ultimately show ?thesis
    using copy_weights_frame[of bk "zip ws (weights rl)" s r s'] by blast
next
  case (ReparameterizableConv2D a cin vars)
  show ?thesis
  proof (cases "bk_get_reparameterized_weights bk a cin (read_unit s vars)")
    case (Inl e)
    with assms ReparameterizableConv2D show ?thesis
      by (simp add: transfer_layer_def)
  next
    case (Inr kb)
    obtain k b where kb: "kb = (k, b)" by (cases kb) auto
    show ?thesis
    proof (cases "\<exists>a' cin' ka ba. rl = ReparameterizableConv2D a' cin' (Fused ka ba)")
      case False
      with assms ReparameterizableConv2D Inr kb show ?thesis
        by (auto simp add: transfer_layer_def split: layer.splits rep_vars.splits)
    next
      case True
      then obtain a' cin' ka ba where rl: "rl = ReparameterizableConv2D a' cin' (Fused ka ba)"
        by blast
      obtain r1 s1 where a1: "assign bk ka k s = (r1, s1)" by (cases "assign bk ka k s") auto
      show ?thesis
      proof (cases r1)
        case (Some e)
        with assms ReparameterizableConv2D Inr kb rl a1 have "s' = s1"
          by (simp add: transfer_layer_def)
        with assign_frame[OF a1] rl show ?thesis by auto
      next
        case None
        with assms ReparameterizableConv2D Inr kb rl a1 have a2: "assign bk ba b s1 = (r, s')"
          by (simp add: transfer_layer_def)
        from assign_frame[OF a1] assign_frame[OF a2] rl show ?thesis by auto
      qed
    qed
  qed
qed

lemma transfer_frame:
  assumes "transfer bk (zip ls rs) s = (r, s')"
  shows "length s' = length s \<and> (\<forall>b. b \<notin> set (owned rs) \<longrightarrow> s' ! b = s ! b)"
  using assms
proof (induction ls arbitrary: rs s)
  case Nil
  then show ?case by simp
next
  case (Cons l ls)
  show ?case
  proof (cases rs)
    case Nil
    with Cons.prems show ?thesis by simp
  next
    case (Cons rl rs')
    obtain r1 s1 where t1: "transfer_layer bk l rl s = (r1, s1)"
      by (cases "transfer_layer bk l rl s") auto
    show ?thesis
    proof (cases r1)
      case (Some e)
      with Cons.prems Cons t1 have "s' = s1" by simp
      with transfer_layer_frame[OF t1] Cons show ?thesis
        by (auto simp add: owned_def)
    next
      case None
      with Cons.prems Cons t1 have "transfer bk (zip ls rs') s1 = (r, s')" by simp
      from Cons.IH[OF this] transfer_layer_frame[OF t1] Cons show ?thesis
        by (auto simp add: owned_def)
    qed
  qed
qed

lemma get_reparameterized_model_frame:
  assumes "get_reparameterized_model bk self s = (r, s')"
  shows "take (length s) s' = s"
proof (cases "MobileOne_init bk (reparameterized_config self) s")
  case (Pair r1 s1)
  show ?thesis
  proof (cases r1)
    case (Inl e)
    with Pair assms MobileOne_init_Inl(1)[of bk "reparameterized_config self" s e s1]
    show ?thesis by (simp add: get_reparameterized_model_unfold)
  next
    case (Inr model)
    note init = Pair[unfolded Inr]
    obtain r2 s2 where t: "transfer bk (zip (self_layers self) (self_layers model)) s1 = (r2, s2)"
      by (cases "transfer bk (zip (self_layers self) (self_layers model)) s1") auto
    with assms init have s': "s' = s2"
      by (auto simp add: get_reparameterized_model_unfold split: option.splits)
    have len: "length s2 = length s1"
      and same: "\<And>b. b \<notin> set (owned (self_layers model)) \<Longrightarrow> s2 ! b = s1 ! b"
      using transfer_frame[OF t] by auto
    have "take (length s) s2 = take (length s) s1"
    proof (rule nth_equalityI)
      show "length (take (length s) s2) = length (take (length s) s1)"
        by (simp add: len)
    next
      fix i assume "i < length (take (length s) s2)"
      then have i: "i < length s" by simp
      then have "i \<notin> set (owned (self_layers model))"
        by (simp add: init_fresh(3)[OF init])
      with i same show "take (length s) s2 ! i = take (length s) s1 ! i"
        by simp
    qed
    with init_fresh(1)[OF init] s' show ?thesis by simp
  qed
qed

subsection \<open>What a successful transfer establishes\<close>








section \<open>Claims about the weight transfer\<close>



text \<open>
  C8. If the transfer succeeds for the pairs before some pair and raises at that pair,
  then \<^verbatim>\<open>get_reparameterized_model\<close> raises that exception, the remaining pairs are not
  processed and no model is returned; every cell of the store that existed before the
  call holds the value it had. The variables of the target model are exactly the cells
  created during the call; they are the only cells written, and the caller never
  receives the target.
\<close>

theorem transfer_all_or_nothing:
  assumes "MobileOne_init bk (reparameterized_config self) s = (Inr model, s1)"
      and "zip (self_layers self) (self_layers model) = ps @ (layer, rep_layer) # rest"
      and "transfer bk ps s1 = (None, s2)"
      and "transfer_layer bk layer rep_layer s2 = (Some e, s3)"
  shows "get_reparameterized_model bk self s = (Inl e, s3) \<and>
         take (length s) s3 = s \<and>
         owned (self_layers model) = [length s ..< length s3]"
proof -
  have t: "transfer bk (zip (self_layers self) (self_layers model)) s1 = (Some e, s3)"
    unfolding assms(2) by (simp add: transfer_append assms(3,4))
  with assms(1) have r: "get_reparameterized_model bk self s = (Inl e, s3)"
    by (simp add: get_reparameterized_model_unfold)
  have "length s3 = length s1"
    using transfer_frame[OF t] by simp
  with init_fresh(3)[OF assms(1)] have "owned (self_layers model) = [length s ..< length s3]"
    by simp
  with get_reparameterized_model_frame[OF r] r show ?thesis by simp
qed

theorem transfer_all_or_nothing_witness:
  "MobileOne_init failing_backend (reparameterized_config example_source) example_store =
     (Inr example_target, example_store @ [0, 0, 0, 0, 0, 0, 10, 20]) \<and>
   zip (self_layers example_source) (self_layers example_target) =
     take 3 (zip (self_layers example_source) (self_layers example_target)) @
     (self_layers example_source ! 3, self_layers example_target ! 3) #
     drop 4 (zip (self_layers example_source) (self_layers example_target)) \<and>
   transfer failing_backend (take 3 (zip (self_layers example_source) (self_layers example_target)))
     (example_store @ [0, 0, 0, 0, 0, 0, 10, 20]) = (None, example_store @ [5, 7, 5, 7, 0, 0, 10, 20]) \<and>
   transfer_layer failing_backend (self_layers example_source ! 3) (self_layers example_target ! 3)
     (example_store @ [5, 7, 5, 7, 0, 0, 10, 20]) = (Some ValueError, example_store @ [5, 7, 5, 7, 0, 0, 10, 20]) \<and>
   get_reparameterized_model failing_backend example_source example_store =
     (Inl ValueError, example_store @ [5, 7, 5, 7, 0, 0, 10, 20]) \<and>
   take (length example_store) (example_store @ [5, 7, 5, 7, 0, 0, 10, 20]) = example_store \<and>
   owned (self_layers example_target) =
     [length example_store ..< length (example_store @ [5, 7, 5, 7, 0, 0, 10, 20])]"
proof -
  have h1: "MobileOne_init failing_backend (reparameterized_config example_source) example_store =
     (Inr example_target, example_store @ [0, 0, 0, 0, 0, 0, 10, 20])"
    by code_simp
  have h2: "zip (self_layers example_source) (self_layers example_target) =
     take 3 (zip (self_layers example_source) (self_layers example_target)) @
     (self_layers example_source ! 3, self_layers example_target ! 3) #
     drop 4 (zip (self_layers example_source) (self_layers example_target))"
    by code_simp
  have h3: "transfer failing_backend (take 3 (zip (self_layers example_source) (self_layers example_target)))
     (example_store @ [0, 0, 0, 0, 0, 0, 10, 20]) = (None, example_store @ [5, 7, 5, 7, 0, 0, 10, 20])"
    by code_simp
  have h4: "transfer_layer failing_backend (self_layers example_source ! 3) (self_layers example_target ! 3)
     (example_store @ [5, 7, 5, 7, 0, 0, 10, 20]) = (Some ValueError, example_store @ [5, 7, 5, 7, 0, 0, 10, 20])"
    by code_simp
  note c = transfer_all_or_nothing [OF h1 h2 h3 h4]
  show ?thesis
    by (intro conjI h1 h2 h3 h4 c[THEN conjunct1] c[THEN conjunct2, THEN conjunct1]
        c[THEN conjunct2, THEN conjunct2])
qed

text \<open>
  C10. Whatever \<^verbatim>\<open>get_reparameterized_model\<close> returns, every cell of the store that
  existed before the call, so every variable of the source model, holds the value it had:
  the assignments go to cells created during the call. When a model is returned, its
  variables are exactly the cells created during the call, and its config is the
  source's config with \<^verbatim>\<open>reparameterized\<close> set to \<open>True\<close> and \<^verbatim>\<open>weights\<close> set to
  \<open>None\<close>. The source model itself is a value that the function only reads.
\<close>

theorem source_model_not_mutated:
  assumes "get_reparameterized_model bk self s = (r, s')"
  shows "take (length s) s' = s \<and>
         (\<forall>model. r = Inr model \<longrightarrow>
            owned (self_layers model) = [length s ..< length s'] \<and>
            get_config model =
              (get_config self)\<lparr>cfg_reparameterized := True,
                                 cfg_kwargs := (cfg_kwargs (get_config self))\<lparr>kw_weights := Some None\<rparr>\<rparr>)"
proof -
  have frame: "take (length s) s' = s"
    by (rule get_reparameterized_model_frame[OF assms])
  have "owned (self_layers model) = [length s ..< length s'] \<and>
        get_config model = reparameterized_config self" if r: "r = Inr model" for model
  proof -
    obtain r1 s1 where init0: "MobileOne_init bk (reparameterized_config self) s = (r1, s1)"
      by (cases "MobileOne_init bk (reparameterized_config self) s") auto
    with assms r have init: "MobileOne_init bk (reparameterized_config self) s = (Inr model, s1)"
      by (auto simp add: get_reparameterized_model_unfold split: sum.splits option.splits prod.splits)
    obtain r2 where "transfer bk (zip (self_layers self) (self_layers model)) s1 = (r2, s')"
      using assms r init
      by (auto simp add: get_reparameterized_model_unfold split: sum.splits option.splits prod.splits)
    then have "length s' = length s1"
      using transfer_frame by blast
    with init_fresh(3)[OF init] MobileOne_init_Inr(4)[OF init] show ?thesis
      by simp
  qed
  with frame show ?thesis
    by (simp add: reparameterized_config_def get_config_def)
qed

theorem source_model_not_mutated_witness:
  "get_reparameterized_model example_backend example_source example_store =
     (Inr example_target, example_store @ [6, 7, 6, 7, 6, 7, 10, 20]) \<and>
   take (length example_store) (example_store @ [6, 7, 6, 7, 6, 7, 10, 20]) = example_store \<and>
   owned (self_layers example_target) =
     [length example_store ..< length (example_store @ [6, 7, 6, 7, 6, 7, 10, 20])] \<and>
   get_config example_target =
     (get_config example_source)\<lparr>cfg_reparameterized := True,
        cfg_kwargs := (cfg_kwargs (get_config example_source))\<lparr>kw_weights := Some None\<rparr>\<rparr>"
proof -
  have h: "get_reparameterized_model example_backend example_source example_store =
     (Inr example_target, example_store @ [6, 7, 6, 7, 6, 7, 10, 20])"
    by code_simp
  note c = source_model_not_mutated [OF h]
  from c have c2: "owned (self_layers example_target) =
       [length example_store ..< length (example_store @ [6, 7, 6, 7, 6, 7, 10, 20])] \<and>
     get_config example_target =
       (get_config example_source)\<lparr>cfg_reparameterized := True,
          cfg_kwargs := (cfg_kwargs (get_config example_source))\<lparr>kw_weights := Some None\<rparr>\<rparr>"
    by blast
  show ?thesis
    by (intro conjI h c[THEN conjunct1] c2[THEN conjunct1] c2[THEN conjunct2])
qed

end
